theory Spec2Isabelle
  imports Main
begin

section \<open>Data model\<close>

text \<open>
  The server (src/server.js) is a set of request handlers over four document collections
  (users, events, posts, instruments) and a Socket.IO channel. Identifiers are modelled by
  their string form (what \<open>toString()\<close> of an ObjectId gives); dates are kept as the text the
  request carried. A field that a JSON body or a document may lack is an \<open>option\<close>, with
  \<open>None\<close> for JavaScript's \<open>undefined\<close>. Of each handler modelled below, every branch that
  server.js writes is in it, the \<open>catch\<close> blocks included. Where a handler hands request
  text to a \<open>Date\<close> path (renting, creating a listing) or compares and stores it as an
  ObjectId (RSVP), the cast and its failure are part of the model. The identifier in the path
  of a post or instrument request is taken as the text its document's \<open>_id\<close> prints as (a
  malformed one, which \<open>findById\<close> throws on, is outside the model). What the
  packages that the server calls decide (jsonwebtoken, bcrypt, the casters of mongoose) is a
  parameter of the handlers that use them.
\<close>

type_synonym oid = string

text \<open>models/FormData.js\<close>

record user =
  u_userId :: oid
  u_role :: string
  u_firstName :: string
  u_lastName :: string
  u_email :: string
  u_password :: string
  u_phone :: string
  u_address :: string
  u_country :: string
  u_state :: string
  u_description :: string

text \<open>A user document after \<open>.select("-password")\<close>.\<close>

record user_view =
  v_userId :: oid
  v_role :: string
  v_firstName :: string
  v_lastName :: string
  v_email :: string
  v_phone :: string
  v_address :: string
  v_country :: string
  v_state :: string
  v_description :: string

text \<open>models/eventModel.js\<close>

record event =
  e_id :: oid
  e_name :: string
  e_genre :: string
  e_host :: string
  e_image :: "string option"
  e_description :: string
  e_location :: string
  e_date :: string
  e_userId :: oid
  e_slots :: string
  e_bookeduser :: "oid option list"
  e_link :: string

text \<open>models/createPostFormData.js; the document's \<open>_id\<close> is its key in the collection.\<close>

record post =
  p_userId :: oid
  p_userName :: string
  p_message :: string
  p_dateTime :: string
  p_likedUsers :: "oid list"

text \<open>models/InstrumentModel.js\<close>

record instrument =
  i_instrumentName :: string
  i_instrumentDescription :: "string option"
  i_category :: string
  i_amount :: "string option"
  i_image :: "string option"
  i_userId :: string
  i_userName :: string
  i_address :: "string option"
  i_contactNumber :: "string option"
  i_status :: string
  i_rentedDate :: "string option"
  i_expectedReturnDate :: "string option"
  i_renterId :: "string option"

text \<open>What \<open>io.emit\<close> sends to the connected clients.\<close>

datatype emit = NewPost oid post | UpdatePost oid post | DeletePost oid

text \<open>
  The collections the handlers enumerate (\<open>find()\<close>, \<open>findOne\<close> on a field) are lists in
  insertion order; those they address by \<open>_id\<close> only are maps from the identifier.
  \<open>emitted\<close> is the log of what was broadcast.
\<close>

record state =
  users :: "user list"
  events :: "event list"
  posts :: "oid \<rightharpoonup> post"
  instruments :: "oid \<rightharpoonup> instrument"
  emitted :: "emit list"

subsection \<open>Responses\<close>

text \<open>
  The JSON bodies that \<open>res.json\<close> is given, and the status set by \<open>res.status\<close>.
  \<open>FlaggedThrown\<close> is \<open>{ success: false, message: error.message }\<close>, whose text is that of
  the error caught.
\<close>

datatype body =
    Message string
  | Flagged bool string
  | ErrorBody string
  | TokenBody string
  | UserBody user_view
  | ProfileUpdated user_view
  | Usernames "string list"
  | EventsBody "event list"
  | FlaggedThrown
  | RsvpBody event
  | PostBody oid post
  | InstrumentBody string oid instrument

datatype response = Resp nat body

fun status :: "response \<Rightarrow> nat" where
  "status (Resp c b) = c"

fun payload :: "response \<Rightarrow> body" where
  "payload (Resp c b) = b"

definition unauthorized :: response where
  "unauthorized = Resp 401 (Message ''Unauthorized'')"

definition server_error :: response where
  "server_error = Resp 500 (Message ''Server error'')"

section \<open>Bearer tokens\<close>

text \<open>\<open>String.prototype.split\<close> with a one-character separator.\<close>

fun js_split :: "char \<Rightarrow> string \<Rightarrow> string list" where
  "js_split sep [] = [[]]"
| "js_split sep (c # cs) =
     (if c = sep then [] # js_split sep cs
      else (case js_split sep cs of [] \<Rightarrow> [[c]] | w # ws \<Rightarrow> (c # w) # ws))"

text \<open>\<open>req.headers.authorization?.split(" ")[1]\<close>: \<open>None\<close> is \<open>undefined\<close>.\<close>

definition bearer_token :: "string option \<Rightarrow> string option" where
  "bearer_token authorization =
     (case authorization of
        None \<Rightarrow> None
      | Some header \<Rightarrow>
          (case js_split CHR '' '' header of
             scheme # token # rest \<Rightarrow> Some token
           | _ \<Rightarrow> None))"

text \<open>
  The first lines of every guarded handler: \<open>if (!token) return 401\<close>, then
  \<open>jwt.verify(token, SECRET_KEY)\<close>, which throws on a malformed or expired token and on a
  signature mismatch. The verifier belongs to the jsonwebtoken package, so it is a parameter:
  \<open>jwt_verify token\<close> is \<open>Some\<close> of the payload's \<open>userId\<close>, or \<open>None\<close> where it throws.
\<close>

datatype auth = NoToken | BadToken | Authenticated oid

definition authenticate :: "(string \<Rightarrow> oid option) \<Rightarrow> string option \<Rightarrow> auth" where
  "authenticate jwt_verify authorization =
     (case bearer_token authorization of
        None \<Rightarrow> NoToken
      | Some token \<Rightarrow>
          if token = [] then NoToken
          else (case jwt_verify token of
                  None \<Rightarrow> BadToken
                | Some userId \<Rightarrow> Authenticated userId))"

section \<open>Profile handlers\<close>

definition select_no_password :: "user \<Rightarrow> user_view" where
  "select_no_password u =
     \<lparr>v_userId = u_userId u, v_role = u_role u, v_firstName = u_firstName u,
      v_lastName = u_lastName u, v_email = u_email u, v_phone = u_phone u,
      v_address = u_address u, v_country = u_country u, v_state = u_state u,
      v_description = u_description u\<rparr>"

text \<open>\<open>GET /user\<close> (server.js 421-436).\<close>

definition get_user :: "(string \<Rightarrow> oid option) \<Rightarrow> state \<Rightarrow> string option \<Rightarrow> response \<times> state" where
  "get_user jwt_verify st authorization =
     (case authenticate jwt_verify authorization of
        NoToken \<Rightarrow> (unauthorized, st)
      | BadToken \<Rightarrow> (server_error, st)
      | Authenticated userId \<Rightarrow>
          (case find (\<lambda>u. u_userId u = userId) (users st) of
             None \<Rightarrow> (Resp 404 (Message ''User not found''), st)
           | Some user \<Rightarrow> (Resp 200 (UserBody (select_no_password user)), st)))"

text \<open>The body of \<open>PUT /user\<close>; a field the request omits is \<open>None\<close>.\<close>

record user_update =
  b_firstName :: "string option"
  b_lastName :: "string option"
  b_email :: "string option"
  b_password :: "string option"
  b_country :: "string option"
  b_state :: "string option"
  b_description :: "string option"

text \<open>A key of the update document whose value is \<open>undefined\<close> leaves the field as it is.\<close>

definition set_field :: "string option \<Rightarrow> string \<Rightarrow> string" where
  "set_field v old = (case v of None \<Rightarrow> old | Some x \<Rightarrow> x)"

text \<open>
  \<open>updateData\<close> of server.js 248-260 applied to a document. The password is hashed and
  written only \<open>if (password)\<close>, that is when it is a non-empty string. The hash function is
  bcrypt's, a parameter.
\<close>

definition apply_update :: "(string \<Rightarrow> string) \<Rightarrow> user_update \<Rightarrow> user \<Rightarrow> user" where
  "apply_update bcrypt_hash b u =
     u\<lparr>u_firstName := set_field (b_firstName b) (u_firstName u),
       u_lastName := set_field (b_lastName b) (u_lastName u),
       u_email := set_field (b_email b) (u_email u),
       u_country := set_field (b_country b) (u_country u),
       u_state := set_field (b_state b) (u_state u),
       u_description := set_field (b_description b) (u_description u),
       u_password := (case b_password b of
                        None \<Rightarrow> u_password u
                      | Some password \<Rightarrow>
                          if password = [] then u_password u else bcrypt_hash password)\<rparr>"

text \<open>\<open>findOneAndUpdate\<close> changes the first document that matches the filter.\<close>

fun update_first :: "('a \<Rightarrow> bool) \<Rightarrow> ('a \<Rightarrow> 'a) \<Rightarrow> 'a list \<Rightarrow> 'a list" where
  "update_first P f [] = []"
| "update_first P f (x # xs) = (if P x then f x # xs else x # update_first P f xs)"

text \<open>
  \<open>PUT /user\<close> (server.js 230-277). The schema declares \<open>email\<close> unique: an update that
  would give two documents the same email is refused by the store, and the handler's
  \<open>catch\<close> answers 500.
\<close>

definition put_user ::
  "(string \<Rightarrow> oid option) \<Rightarrow> (string \<Rightarrow> string) \<Rightarrow> state \<Rightarrow> string option \<Rightarrow> user_update
     \<Rightarrow> response \<times> state" where
  "put_user jwt_verify bcrypt_hash st authorization b =
     (case authenticate jwt_verify authorization of
        NoToken \<Rightarrow> (unauthorized, st)
      | BadToken \<Rightarrow> (server_error, st)
      | Authenticated userId \<Rightarrow>
          (case find (\<lambda>u. u_userId u = userId) (users st) of
             None \<Rightarrow> (Resp 404 (Message ''User not found''), st)
           | Some user \<Rightarrow>
               (let updatedUser = apply_update bcrypt_hash b user;
                    users' = update_first (\<lambda>u. u_userId u = userId) (apply_update bcrypt_hash b) (users st)
                in if distinct (map u_email (users st)) \<and> \<not> distinct (map u_email users')
                   then (server_error, st)
                   else (Resp 200 (ProfileUpdated (select_no_password updatedUser)),
                         st\<lparr>users := users'\<rparr>))))"

section \<open>Post handlers\<close>

text \<open>\<open>PUT /posts/like/:id\<close> (server.js 480-514).\<close>

definition put_posts_like ::
  "(string \<Rightarrow> oid option) \<Rightarrow> state \<Rightarrow> string option \<Rightarrow> oid \<Rightarrow> response \<times> state" where
  "put_posts_like jwt_verify st authorization postId =
     (case authenticate jwt_verify authorization of
        NoToken \<Rightarrow> (unauthorized, st)
      | BadToken \<Rightarrow> (server_error, st)
      | Authenticated userId \<Rightarrow>
          (case posts st postId of
             None \<Rightarrow> (Resp 404 (Message ''Post not found''), st)
           | Some post \<Rightarrow>
               (let alreadyLiked = list_ex (\<lambda>i. i = userId) (p_likedUsers post);
                    post' = (if alreadyLiked
                             then post\<lparr>p_likedUsers := filter (\<lambda>i. i \<noteq> userId) (p_likedUsers post)\<rparr>
                             else post\<lparr>p_likedUsers := p_likedUsers post @ [userId]\<rparr>)
                in (Resp 200 (PostBody postId post'),
                    st\<lparr>posts := (posts st)(postId \<mapsto> post'),
                       emitted := emitted st @ [UpdatePost postId post']\<rparr>))))"

text \<open>\<open>DELETE /posts/:id\<close> (server.js 517-543).\<close>

definition delete_posts ::
  "(string \<Rightarrow> oid option) \<Rightarrow> state \<Rightarrow> string option \<Rightarrow> oid \<Rightarrow> response \<times> state" where
  "delete_posts jwt_verify st authorization postId =
     (case authenticate jwt_verify authorization of
        NoToken \<Rightarrow> (unauthorized, st)
      | BadToken \<Rightarrow> (server_error, st)
      | Authenticated userId \<Rightarrow>
          (case posts st postId of
             None \<Rightarrow> (Resp 404 (Message ''Post not found''), st)
           | Some post \<Rightarrow>
               if p_userId post \<noteq> userId
               then (Resp 403 (Message ''You cannot delete this post''), st)
               else (Resp 200 (Message ''Post deleted successfully''),
                     st\<lparr>posts := (posts st)(postId := None),
                        emitted := emitted st @ [DeletePost postId]\<rparr>)))"

section \<open>Instrument rental handlers\<close>

text \<open>
  A value assigned to a \<open>Date\<close> path (\<open>rentedDate\<close>, \<open>expectedReturnDate\<close>): the empty
  string is stored as no date, like an absent value.
\<close>

definition cast_date :: "string option \<Rightarrow> string option" where
  "cast_date v = (case v of None \<Rightarrow> None | Some s \<Rightarrow> if s = [] then None else Some s)"

text \<open>
  Any other text must be one that casts to a date, or \<open>save()\<close> rejects the document.
  Which texts are dates is decided by mongoose and the JavaScript \<open>Date\<close> parser, so it is
  the parameter \<open>is_date\<close>.
\<close>

definition date_casts :: "(string \<Rightarrow> bool) \<Rightarrow> string option \<Rightarrow> bool" where
  "date_casts is_date v = (case v of None \<Rightarrow> True | Some s \<Rightarrow> if s = [] then True else is_date s)"

text \<open>
  \<open>PUT /instruments/rent/:id\<close> (server.js 612-664). The four assignments are followed by
  \<open>await instrument.save()\<close>; when a date does not cast, \<open>save\<close> throws, nothing is stored
  and the \<open>catch\<close> answers 500.
\<close>

definition put_instruments_rent ::
  "(string \<Rightarrow> oid option) \<Rightarrow> (string \<Rightarrow> bool) \<Rightarrow> state \<Rightarrow> string option \<Rightarrow> oid
     \<Rightarrow> string option \<Rightarrow> string option \<Rightarrow> response \<times> state" where
  "put_instruments_rent jwt_verify is_date st authorization instrumentId rentedDate expectedReturnDate =
     (case authenticate jwt_verify authorization of
        NoToken \<Rightarrow> (unauthorized, st)
      | BadToken \<Rightarrow> (Resp 500 (ErrorBody ''Unable to rent the instrument.''), st)
      | Authenticated renterId \<Rightarrow>
          (case instruments st instrumentId of
             None \<Rightarrow> (Resp 404 (Message ''Instrument not found.''), st)
           | Some instrument \<Rightarrow>
               if i_userId instrument = renterId
               then (Resp 400 (Message ''You cannot rent your own instrument.''), st)
               else if i_status instrument \<noteq> ''available''
               then (Resp 400 (Message ''Instrument is not available for rent.''), st)
               else (let instrument' = instrument
                           \<lparr>i_status := ''not available'',
                            i_rentedDate := cast_date rentedDate,
                            i_expectedReturnDate := cast_date expectedReturnDate,
                            i_renterId := Some renterId\<rparr>
                     in if date_casts is_date rentedDate \<and> date_casts is_date expectedReturnDate
                        then (Resp 200 (InstrumentBody ''Instrument rented successfully!''
                                          instrumentId instrument'),
                              st\<lparr>instruments := (instruments st)(instrumentId \<mapsto> instrument')\<rparr>)
                        else (Resp 500 (ErrorBody ''Unable to rent the instrument.''), st))))"

text \<open>
  \<open>PUT /instruments/return/:id\<close> (server.js 667-712). The handler assigns the empty
  string to the three rental fields; \<open>renterId\<close> is a \<open>String\<close> path and keeps it.
\<close>

definition put_instruments_return ::
  "(string \<Rightarrow> oid option) \<Rightarrow> state \<Rightarrow> string option \<Rightarrow> oid \<Rightarrow> response \<times> state" where
  "put_instruments_return jwt_verify st authorization instrumentId =
     (case authenticate jwt_verify authorization of
        NoToken \<Rightarrow> (unauthorized, st)
      | BadToken \<Rightarrow> (Resp 500 (ErrorBody ''Unable to return the instrument.''), st)
      | Authenticated userId \<Rightarrow>
          (case instruments st instrumentId of
             None \<Rightarrow> (Resp 404 (Message ''Instrument not found.''), st)
           | Some instrument \<Rightarrow>
               if i_renterId instrument \<noteq> Some userId
               then (Resp 400 (Message ''You are not the renter of this instrument.''), st)
               else (let instrument' = instrument
                           \<lparr>i_status := ''available'',
                            i_rentedDate := cast_date (Some []),
                            i_expectedReturnDate := cast_date (Some []),
                            i_renterId := Some ''''\<rparr>
                     in (Resp 200 (InstrumentBody
                                     ''Instrument returned and status updated to available!''
                                     instrumentId instrument'),
                         st\<lparr>instruments := (instruments st)(instrumentId \<mapsto> instrument')\<rparr>))))"

text \<open>
  \<open>POST /addnewinstrument\<close> (server.js 545-583). Every field is read from the request
  body and handed to the constructor; the schema supplies \<open>status: "available"\<close> only as
  the default of an absent value, and \<open>save\<close> fails on a missing required path or on a
  date that does not cast, which the \<open>catch\<close> turns into 500. \<open>newId\<close> is the \<open>_id\<close> the
  driver generates.
\<close>

record new_instrument =
  a_instrumentName :: "string option"
  a_instrumentDescription :: "string option"
  a_amount :: "string option"
  a_userId :: "string option"
  a_userName :: "string option"
  a_address :: "string option"
  a_contactNumber :: "string option"
  a_status :: "string option"
  a_rentedDate :: "string option"
  a_expectedReturnDate :: "string option"
  a_renterId :: "string option"
  a_category :: "string option"

text \<open>The \<open>required: true\<close> validator of a \<open>String\<close> path: present and not empty.\<close>

definition required :: "string option \<Rightarrow> bool" where
  "required v = (case v of None \<Rightarrow> False | Some s \<Rightarrow> s \<noteq> [])"

text \<open>The value of a path that passed \<open>required\<close>; an absent text is the empty default.\<close>

definition value_or_empty :: "string option \<Rightarrow> string" where
  "value_or_empty v = (case v of None \<Rightarrow> [] | Some s \<Rightarrow> s)"

definition post_addnewinstrument ::
  "(string \<Rightarrow> bool) \<Rightarrow> oid \<Rightarrow> state \<Rightarrow> new_instrument \<Rightarrow> string option \<Rightarrow> response \<times> state" where
  "post_addnewinstrument is_date newId st b file =
     (let newInstrument =
            \<lparr>i_instrumentName = value_or_empty (a_instrumentName b),
             i_instrumentDescription = a_instrumentDescription b,
             i_category = value_or_empty (a_category b),
             i_amount = a_amount b,
             i_image = Some (case file of None \<Rightarrow> [] | Some filename \<Rightarrow> filename),
             i_userId = value_or_empty (a_userId b),
             i_userName = value_or_empty (a_userName b),
             i_address = a_address b,
             i_contactNumber = a_contactNumber b,
             i_status = (case a_status b of None \<Rightarrow> ''available'' | Some s \<Rightarrow> s),
             i_rentedDate = cast_date (a_rentedDate b),
             i_expectedReturnDate = cast_date (a_expectedReturnDate b),
             i_renterId = a_renterId b\<rparr>
      in if required (a_instrumentName b) \<and> required (a_category b)
            \<and> required (a_userId b) \<and> required (a_userName b)
            \<and> date_casts is_date (a_rentedDate b) \<and> date_casts is_date (a_expectedReturnDate b)
         then (Resp 201 (Message ''Instrument added successfully!''),
               st\<lparr>instruments := (instruments st)(newId \<mapsto> newInstrument)\<rparr>)
         else (Resp 500 (ErrorBody ''Failed to add instrument''), st))"

section \<open>Registration and login\<close>

record registration =
  r_role :: "string option"
  r_firstName :: "string option"
  r_lastName :: "string option"
  r_email :: "string option"
  r_password :: "string option"
  r_phone :: "string option"
  r_address :: "string option"
  r_country :: "string option"
  r_state :: "string option"
  r_description :: "string option"

text \<open>
  \<open>FormDataModel.findOne({ email })\<close>: the first user with that email. Every stored user
  has an email, so a filter whose email is \<open>undefined\<close> finds nobody.
\<close>

definition findOne_email :: "string option \<Rightarrow> user list \<Rightarrow> user option" where
  "findOne_email email us =
     (case email of None \<Rightarrow> None | Some e \<Rightarrow> find (\<lambda>u. u_email u = e) us)"

text \<open>
  \<open>POST /register\<close> (server.js 147-187). \<open>bcrypt.hash\<close> throws on an absent password;
  \<open>save\<close> validates the required paths of models/FormData.js. \<open>newId\<close> is the fresh
  \<open>new mongoose.Types.ObjectId().toString()\<close>.
\<close>

definition post_register ::
  "(string \<Rightarrow> string) \<Rightarrow> oid \<Rightarrow> state \<Rightarrow> registration \<Rightarrow> response \<times> state" where
  "post_register bcrypt_hash newId st b =
     (case findOne_email (r_email b) (users st) of
        Some existingUser \<Rightarrow> (Resp 400 (Message ''User already exists''), st)
      | None \<Rightarrow>
          (case r_password b of
             None \<Rightarrow> (server_error, st)
           | Some password \<Rightarrow>
               (let hashedPassword = bcrypt_hash password;
                    newUser =
                      \<lparr>u_userId = newId,
                       u_role = value_or_empty (r_role b),
                       u_firstName = value_or_empty (r_firstName b),
                       u_lastName = value_or_empty (r_lastName b),
                       u_email = value_or_empty (r_email b),
                       u_password = hashedPassword,
                       u_phone = value_or_empty (r_phone b),
                       u_address = value_or_empty (r_address b),
                       u_country = value_or_empty (r_country b),
                       u_state = value_or_empty (r_state b),
                       u_description = (if r_role b = Some ''Artist''
                                        then value_or_empty (r_description b) else [])\<rparr>
                in if required (r_role b) \<and> required (r_firstName b) \<and> required (r_lastName b)
                      \<and> required (r_email b) \<and> hashedPassword \<noteq> [] \<and> required (r_phone b)
                      \<and> required (r_address b) \<and> required (r_country b) \<and> required (r_state b)
                   then (Resp 201 (Message ''User registered successfully''),
                         st\<lparr>users := users st @ [newUser]\<rparr>)
                   else (server_error, st))))"

text \<open>
  \<open>POST /login\<close> (server.js 190-208). \<open>bcrypt.compare\<close> and \<open>jwt.sign\<close> are parameters;
  \<open>jwt_sign userId\<close> is the token signed over \<open>{ userId }\<close>. \<open>bcrypt.compare\<close> throws on
  an absent password. The handler writes nothing.
\<close>

definition post_login ::
  "(string \<Rightarrow> string \<Rightarrow> bool) \<Rightarrow> (oid \<Rightarrow> string) \<Rightarrow> state \<Rightarrow> string option \<Rightarrow> string option
     \<Rightarrow> response" where
  "post_login bcrypt_compare jwt_sign st email password =
     (case findOne_email email (users st) of
        None \<Rightarrow> Resp 400 (Message ''Invalid credentials'')
      | Some user \<Rightarrow>
          (case password of
             None \<Rightarrow> server_error
           | Some pw \<Rightarrow>
               if \<not> bcrypt_compare pw (u_password user)
               then Resp 400 (Message ''Invalid credentials'')
               else Resp 200 (TokenBody (jwt_sign (u_userId user)))))"

section \<open>Event handlers\<close>

text \<open>
  The attendees of an event are ObjectIds, while \<open>req.params.id\<close> and \<open>req.body.userId\<close> are
  request text. What an ObjectId path makes of a text is mongoose's affair, so the caster is
  a parameter of the handler: \<open>cast_objectid text\<close> is a cast error, or the value that is
  stored, where \<open>Casted None\<close> is \<open>null\<close> and \<open>Casted (Some i)\<close> the ObjectId that prints
  (\<open>toString()\<close>) as \<open>i\<close>.
\<close>

datatype cast = CastError | Casted "oid option"

text \<open>\<open>Event.findById\<close>, and \<open>event.save()\<close>, which replaces the stored document that has
  the event's \<open>_id\<close>.\<close>

definition findById_event :: "oid \<Rightarrow> event list \<Rightarrow> event option" where
  "findById_event eventId evs = find (\<lambda>e. e_id e = eventId) evs"

definition save_event :: "event \<Rightarrow> event list \<Rightarrow> event list" where
  "save_event ev evs = update_first (\<lambda>e. e_id e = e_id ev) (\<lambda>e. ev) evs"

text \<open>
  \<open>event.bookeduser.includes(userId)\<close>: the request's value is compared loosely (\<open>==\<close>)
  with each stored attendee, so a text equals an ObjectId when it is the text the ObjectId
  prints as, an absent value (\<open>undefined\<close>) equals a stored \<open>null\<close>, and nothing else is equal.
\<close>

definition loosely_equal :: "string option \<Rightarrow> oid option \<Rightarrow> bool" where
  "loosely_equal v x =
     (case v of
        None \<Rightarrow> (case x of None \<Rightarrow> True | Some i \<Rightarrow> False)
      | Some text \<Rightarrow> (case x of None \<Rightarrow> False | Some i \<Rightarrow> text = i))"

definition array_includes :: "oid option list \<Rightarrow> string option \<Rightarrow> bool" where
  "array_includes xs v = list_ex (loosely_equal v) xs"

text \<open>\<open>event.bookeduser.push(userId)\<close> casts its argument; an absent value is pushed as \<open>null\<close>.\<close>

definition cast_pushed :: "(string \<Rightarrow> cast) \<Rightarrow> string option \<Rightarrow> cast" where
  "cast_pushed cast_objectid v = (case v of None \<Rightarrow> Casted None | Some text \<Rightarrow> cast_objectid text)"

text \<open>
  \<open>POST /eventsdata/:id/rsvp\<close> (server.js 390-418). A cast error of \<open>findById\<close> or of
  \<open>push\<close> is thrown into the \<open>catch\<close>, which answers 500 with the error's own message.
\<close>

definition post_rsvp ::
  "(string \<Rightarrow> cast) \<Rightarrow> state \<Rightarrow> string \<Rightarrow> string option \<Rightarrow> response \<times> state" where
  "post_rsvp cast_objectid st eventId userId =
     (case cast_objectid eventId of
        CastError \<Rightarrow> (Resp 500 FlaggedThrown, st)
      | Casted None \<Rightarrow> (Resp 404 (Flagged False ''Event not found''), st)
      | Casted (Some key) \<Rightarrow>
          (case findById_event key (events st) of
             None \<Rightarrow> (Resp 404 (Flagged False ''Event not found''), st)
           | Some event \<Rightarrow>
               if array_includes (e_bookeduser event) userId
               then (Resp 400 (Flagged False ''User already RSVP'd''), st)
               else (case cast_pushed cast_objectid userId of
                       CastError \<Rightarrow> (Resp 500 FlaggedThrown, st)
                     | Casted attendee \<Rightarrow>
                         (let event' = event\<lparr>e_bookeduser := e_bookeduser event @ [attendee]\<rparr>
                          in (Resp 200 (RsvpBody event'),
                              st\<lparr>events := save_event event' (events st)\<rparr>)))))"

section \<open>Listing handlers\<close>

text \<open>\<open>GET /usernames\<close> (server.js 210-227).\<close>

definition get_usernames :: "state \<Rightarrow> response" where
  "get_usernames st =
     (if length (users st) = 0 then Resp 404 (Message ''No users found'')
      else Resp 200 (Usernames (map (\<lambda>user. u_firstName user @ '' '' @ u_lastName user) (users st))))"

text \<open>\<open>GET /eventsdata\<close> (server.js 337-357).\<close>

definition get_eventsdata :: "state \<Rightarrow> response" where
  "get_eventsdata st =
     (if length (events st) = 0 then Resp 404 (Flagged False ''No events found'')
      else Resp 200 (EventsBody (events st)))"

section \<open>Example data\<close>

text \<open>
  A small store and stand-ins for the external oracles, used to run the handlers on
  concrete requests: a user Alice (\<open>a1\<close>), a second requester \<open>b1\<close>, one event, one post
  by Alice and one instrument that Alice owns.
\<close>

definition alice :: user where
  "alice = \<lparr>u_userId = ''a1'', u_role = ''User'', u_firstName = ''Alice'', u_lastName = ''Ng'',
     u_email = ''a@x.com'', u_password = ''h:pw'', u_phone = ''1'', u_address = ''x'',
     u_country = ''IN'', u_state = ''TN'', u_description = ''''\<rparr>"

definition bob :: user where
  "bob = \<lparr>u_userId = ''b1'', u_role = ''Musician'', u_firstName = ''Bob'', u_lastName = ''Rao'',
           u_email = ''b@x.com'', u_password = ''h:secret'', u_phone = ''2'', u_address = ''y'',
           u_country = ''IN'', u_state = ''KA'', u_description = []\<rparr>"

definition gig :: event where
  "gig = \<lparr>e_id = ''e1'', e_name = ''Gig'', e_genre = ''Jazz'', e_host = ''Bob'', e_image = None,
     e_description = ''d'', e_location = ''l'', e_date = ''2025-01-01'', e_userId = ''b1'',
     e_slots = ''5'', e_bookeduser = [], e_link = ''http://x''\<rparr>"

definition hello :: post where
  "hello = \<lparr>p_userId = ''a1'', p_userName = ''Alice Ng'', p_message = ''hello'',
     p_dateTime = ''2025-01-01'', p_likedUsers = [''a1'']\<rparr>"

definition guitar :: instrument where
  "guitar = \<lparr>i_instrumentName = ''Guitar'', i_instrumentDescription = None, i_category = ''String'',
     i_amount = Some ''10'', i_image = Some [], i_userId = ''a1'', i_userName = ''Alice Ng'',
     i_address = None, i_contactNumber = None, i_status = ''available'',
     i_rentedDate = None, i_expectedReturnDate = None, i_renterId = None\<rparr>"

definition rented_guitar :: instrument where
  "rented_guitar = guitar\<lparr>i_status := ''not available'', i_rentedDate := Some ''2025-02-01'',
     i_expectedReturnDate := Some ''2025-02-08'', i_renterId := Some ''b1''\<rparr>"

definition empty_state :: state where
  "empty_state = \<lparr>users = [], events = [], posts = Map.empty, instruments = Map.empty, emitted = []\<rparr>"

definition demo_state :: state where
  "demo_state = \<lparr>users = [alice], events = [gig], posts = [''p1'' \<mapsto> hello],
     instruments = [''i1'' \<mapsto> guitar], emitted = []\<rparr>"

definition rented_state :: state where
  "rented_state = demo_state\<lparr>instruments := [''i1'' \<mapsto> rented_guitar]\<rparr>"

definition demo_verify :: "string \<Rightarrow> oid option" where
  "demo_verify token =
     (if token = ''tokA'' then Some ''a1'' else if token = ''tokB'' then Some ''b1'' else None)"

definition demo_hash :: "string \<Rightarrow> string" where
  "demo_hash password = ''h:'' @ password"

definition demo_compare :: "string \<Rightarrow> string \<Rightarrow> bool" where
  "demo_compare password hashed = (hashed = ''h:'' @ password)"

definition demo_sign :: "oid \<Rightarrow> string" where
  "demo_sign userId = ''jwt:'' @ userId"

definition signup :: registration where
  "signup = \<lparr>r_role = Some ''Musician'', r_firstName = Some ''Bob'', r_lastName = Some ''Rao'',
     r_email = Some ''b@x.com'', r_password = Some ''secret'', r_phone = Some ''2'',
     r_address = Some ''y'', r_country = Some ''IN'', r_state = Some ''KA'',
     r_description = Some ''plays bass''\<rparr>"

definition bio :: user_update where
  "bio = \<lparr>b_firstName = None, b_lastName = None, b_email = None, b_password = None,
     b_country = None, b_state = None, b_description = Some ''I paint''\<rparr>"

definition listing :: new_instrument where
  "listing = \<lparr>a_instrumentName = Some ''Drum'', a_instrumentDescription = None, a_amount = None,
     a_userId = Some ''a1'', a_userName = Some ''Alice Ng'', a_address = None,
     a_contactNumber = None, a_status = None, a_rentedDate = None,
     a_expectedReturnDate = None, a_renterId = None, a_category = Some ''Percussion''\<rparr>"

definition drum :: instrument where
  "drum = \<lparr>i_instrumentName = ''Drum'', i_instrumentDescription = None, i_category = ''Percussion'',
     i_amount = None, i_image = Some [], i_userId = ''a1'', i_userName = ''Alice Ng'',
     i_address = None, i_contactNumber = None, i_status = ''available'',
     i_rentedDate = None, i_expectedReturnDate = None, i_renterId = None\<rparr>"

text \<open>
  Stand-ins for the casters. A text of ten digits and dashes stands for a date. The ObjectId
  caster reads 24 hexadecimal digits in either case, and the ObjectId prints in lower case.
\<close>

definition demo_is_date :: "string \<Rightarrow> bool" where
  "demo_is_date s = (length s = 10 \<and> list_all (\<lambda>c. c \<in> set ''0123456789-'') s)"

definition hex_digit :: "char \<Rightarrow> bool" where
  "hex_digit c = (c \<in> set ''0123456789abcdefABCDEF'')"

definition lower_case :: "char \<Rightarrow> char" where
  "lower_case c =
     (if c = CHR ''A'' then CHR ''a'' else if c = CHR ''B'' then CHR ''b''
      else if c = CHR ''C'' then CHR ''c'' else if c = CHR ''D'' then CHR ''d''
      else if c = CHR ''E'' then CHR ''e'' else if c = CHR ''F'' then CHR ''f'' else c)"

definition hex_objectid :: "string \<Rightarrow> cast" where
  "hex_objectid text =
     (if length text = 24 \<and> list_all hex_digit text
      then Casted (Some (map lower_case text)) else CastError)"

text \<open>An event without attendees whose \<open>_id\<close> is an ObjectId in print.\<close>

definition concert :: event where
  "concert = \<lparr>e_id = ''e1e1e1e1e1e1e1e1e1e1e1e1'', e_name = ''Concert'', e_genre = ''Folk'',
     e_host = ''Bob'', e_image = None, e_description = ''d'', e_location = ''l'',
     e_date = ''2025-04-01'', e_userId = ''b1b1b1b1b1b1b1b1b1b1b1b1'', e_slots = ''5'',
     e_bookeduser = [], e_link = ''http://c''\<rparr>"

definition concert_state :: state where
  "concert_state = \<lparr>users = [], events = [concert], posts = Map.empty,
     instruments = Map.empty, emitted = []\<rparr>"

section \<open>Auxiliary notions and facts\<close>

text \<open>What lines 491-501 of server.js leave in \<open>likedUsers\<close> for the requester \<open>u\<close>.\<close>

definition toggle :: "oid \<Rightarrow> oid list \<Rightarrow> oid list" where
  "toggle u xs = (if list_ex (\<lambda>i. i = u) xs then filter (\<lambda>i. i \<noteq> u) xs else xs @ [u])"

text \<open>The schema's remark on \<open>description\<close>: "Only for artists".\<close>

definition description_only_artist :: "user \<Rightarrow> bool" where
  "description_only_artist u = (u_description u \<noteq> [] \<longrightarrow> u_role u = ''Artist'')"

lemma authenticate_missing:
  "bearer_token authorization = None \<or> bearer_token authorization = Some []
   \<Longrightarrow> authenticate jwt_verify authorization = NoToken"
  by (auto simp: authenticate_def)

lemma bearer_tokA: "bearer_token (Some ''Bearer tokA'') = Some ''tokA''"
  by (simp add: bearer_token_def)

lemma bearer_tokB: "bearer_token (Some ''Bearer tokB'') = Some ''tokB''"
  by (simp add: bearer_token_def)

lemma bearer_forged: "bearer_token (Some ''Bearer forged'') = Some ''forged''"
  by (simp add: bearer_token_def)

lemma bearer_absent: "bearer_token None = None" "bearer_token (Some ''Bearer'') = None"
  "bearer_token (Some ''Bearer '') = Some []"
  by (simp_all add: bearer_token_def)

lemma like_step:
  assumes "authenticate jwt_verify authorization = Authenticated userId"
    and "posts st postId = Some post"
  shows "put_posts_like jwt_verify st authorization postId =
           (Resp 200 (PostBody postId (post\<lparr>p_likedUsers := toggle userId (p_likedUsers post)\<rparr>)),
            st\<lparr>posts := (posts st)(postId \<mapsto> post\<lparr>p_likedUsers := toggle userId (p_likedUsers post)\<rparr>),
               emitted := emitted st @ [UpdatePost postId (post\<lparr>p_likedUsers := toggle userId (p_likedUsers post)\<rparr>)]\<rparr>)"
  using assms by (simp add: put_posts_like_def toggle_def Let_def)

lemma toggle_mem: "u \<in> set (toggle u xs) \<longleftrightarrow> u \<notin> set xs"
  by (auto simp: toggle_def list_ex_iff)

lemma toggle_toggle_set: "set (toggle u (toggle u xs)) = set xs"
  by (auto simp: toggle_def list_ex_iff)

lemma toggle_toggle_absent: "u \<notin> set xs \<Longrightarrow> toggle u (toggle u xs) = xs"
  by (auto simp: toggle_def list_ex_iff filter_id_conv)

lemma find_append_new:
  "find P xs = None \<Longrightarrow> P x \<Longrightarrow> find P (xs @ [x]) = Some x"
  by (induction xs) (auto split: if_splits)

lemma array_includes_text: "array_includes xs (Some text) \<longleftrightarrow> Some text \<in> set xs"
proof -
  have "loosely_equal (Some text) x \<longleftrightarrow> x = Some text" for x
    by (cases x) (auto simp: loosely_equal_def)
  then show ?thesis
    by (auto simp: array_includes_def list_ex_iff)
qed

lemma hex_objectid_upper:
  "hex_objectid ''A1A1A1A1A1A1A1A1A1A1A1A1'' = Casted (Some ''a1a1a1a1a1a1a1a1a1a1a1a1'')"
  by (simp add: hex_objectid_def hex_digit_def lower_case_def)

lemma hex_objectid_concert:
  "hex_objectid ''e1e1e1e1e1e1e1e1e1e1e1e1'' = Casted (Some ''e1e1e1e1e1e1e1e1e1e1e1e1'')"
  by (simp add: hex_objectid_def hex_digit_def lower_case_def)

lemma register_then_login:
  assumes ok: "\<forall>p. bcrypt_compare p (bcrypt_hash p)"
    and reg: "post_register bcrypt_hash newId st0 b = (Resp 201 m, st1)"
  shows "post_login bcrypt_compare jwt_sign st1 (r_email b) (r_password b)
           = Resp 200 (TokenBody (jwt_sign newId))"
proof -
  from reg have none: "findOne_email (r_email b) (users st0) = None"
    by (auto simp: post_register_def server_error_def split: option.splits)
  from reg none obtain password where pw: "r_password b = Some password"
    by (auto simp: post_register_def server_error_def split: option.splits)
  let ?newUser = "\<lparr>u_userId = newId,
                       u_role = value_or_empty (r_role b),
                       u_firstName = value_or_empty (r_firstName b),
                       u_lastName = value_or_empty (r_lastName b),
                       u_email = value_or_empty (r_email b),
                       u_password = bcrypt_hash password,
                       u_phone = value_or_empty (r_phone b),
                       u_address = value_or_empty (r_address b),
                       u_country = value_or_empty (r_country b),
                       u_state = value_or_empty (r_state b),
                       u_description = (if r_role b = Some ''Artist''
                                        then value_or_empty (r_description b) else [])\<rparr>"
  from reg none pw have req: "required (r_email b)"
    and st1: "st1 = st0\<lparr>users := users st0 @ [?newUser]\<rparr>"
    by (auto simp: post_register_def server_error_def Let_def split: if_splits)
  from req obtain e where em: "r_email b = Some e"
    by (cases "r_email b") (simp_all add: required_def)
  have ve: "value_or_empty (r_email b) = e"
    by (simp add: em value_or_empty_def)
  from none have f0: "find (\<lambda>u. u_email u = e) (users st0) = None"
    by (simp add: findOne_email_def em)
  have "find (\<lambda>u. u_email u = e) (users st0 @ [?newUser]) = Some ?newUser"
    using f0 by (rule find_append_new) (simp add: ve)
  then have "findOne_email (Some e) (users st1) = Some ?newUser"
    unfolding st1 findOne_email_def by simp
  then have f1: "findOne_email (r_email b) (users st1) = Some ?newUser"
    by (simp only: em)
  show ?thesis
    using ok by (simp add: post_login_def f1 pw)
qed

lemma register_signup:
  "post_register demo_hash ''b1'' demo_state signup
     = (Resp 201 (Message ''User registered successfully''), demo_state\<lparr>users := [alice, bob]\<rparr>)"
  by (simp add: post_register_def findOne_email_def demo_state_def signup_def alice_def bob_def
      demo_hash_def required_def value_or_empty_def)

lemma add_listing:
  "post_addnewinstrument demo_is_date ''i2'' demo_state listing None
     = (Resp 201 (Message ''Instrument added successfully!''),
        demo_state\<lparr>instruments := (instruments demo_state)(''i2'' \<mapsto> drum)\<rparr>)"
  by (simp add: post_addnewinstrument_def listing_def drum_def required_def value_or_empty_def
      cast_date_def date_casts_def)

lemma add_listing_on_loan:
  "post_addnewinstrument demo_is_date ''i2'' demo_state (listing\<lparr>a_status := Some ''on loan''\<rparr>) None
     = (Resp 201 (Message ''Instrument added successfully!''),
        demo_state\<lparr>instruments := (instruments demo_state)(''i2'' \<mapsto> drum\<lparr>i_status := ''on loan''\<rparr>)\<rparr>)"
  by (simp add: post_addnewinstrument_def listing_def drum_def required_def value_or_empty_def
      cast_date_def date_casts_def)

section \<open>Like and unlike\<close>

text \<open>
  C1. For an existing post and an authenticated requester, \<open>PUT /posts/like/:id\<close> applied
  twice succeeds both times and leaves the post with the liked-set it had before the first
  application. If the requester was absent, the first application adds them and the second
  removes them, giving back the very same post document; if the requester was present, the
  first application removes them and the second adds them again.
\<close>

theorem like_twice_restores_liked_set:
  assumes "bearer_token authorization = Some token" and "token \<noteq> []"
    and "jwt_verify token = Some userId"
    and "posts st postId = Some post"
  shows "\<exists>post1 st1 post2 st2.
           put_posts_like jwt_verify st authorization postId = (Resp 200 (PostBody postId post1), st1)
         \<and> posts st1 postId = Some post1
         \<and> put_posts_like jwt_verify st1 authorization postId = (Resp 200 (PostBody postId post2), st2)
         \<and> posts st2 postId = Some post2
         \<and> set (p_likedUsers post2) = set (p_likedUsers post)
         \<and> (userId \<notin> set (p_likedUsers post) \<longrightarrow>
               userId \<in> set (p_likedUsers post1) \<and> post2 = post)
         \<and> (userId \<in> set (p_likedUsers post) \<longrightarrow>
               userId \<notin> set (p_likedUsers post1) \<and> userId \<in> set (p_likedUsers post2))"
proof -
  let ?p1 = "post\<lparr>p_likedUsers := toggle userId (p_likedUsers post)\<rparr>"
  let ?st1 = "st\<lparr>posts := (posts st)(postId \<mapsto> ?p1), emitted := emitted st @ [UpdatePost postId ?p1]\<rparr>"
  let ?p2 = "?p1\<lparr>p_likedUsers := toggle userId (p_likedUsers ?p1)\<rparr>"
  let ?st2 = "?st1\<lparr>posts := (posts ?st1)(postId \<mapsto> ?p2), emitted := emitted ?st1 @ [UpdatePost postId ?p2]\<rparr>"
  have a: "authenticate jwt_verify authorization = Authenticated userId"
    using assms(1-3) by (simp add: authenticate_def)
  have s1: "put_posts_like jwt_verify st authorization postId = (Resp 200 (PostBody postId ?p1), ?st1)"
    using like_step [OF a assms(4)] .
  have f1: "posts ?st1 postId = Some ?p1" by simp
  have s2: "put_posts_like jwt_verify ?st1 authorization postId = (Resp 200 (PostBody postId ?p2), ?st2)"
    using like_step [OF a f1] .
  have f2: "posts ?st2 postId = Some ?p2" by simp
  have e: "set (p_likedUsers ?p2) = set (p_likedUsers post)"
    by (simp add: toggle_toggle_set)
  have ab: "userId \<notin> set (p_likedUsers post) \<longrightarrow> userId \<in> set (p_likedUsers ?p1) \<and> ?p2 = post"
    by (simp add: toggle_mem toggle_toggle_absent)
  have pr: "userId \<in> set (p_likedUsers post) \<longrightarrow>
              userId \<notin> set (p_likedUsers ?p1) \<and> userId \<in> set (p_likedUsers ?p2)"
    by (simp add: toggle_mem)
  from s1 f1 s2 f2 e ab pr show ?thesis by blast
qed

theorem like_twice_restores_liked_set_witness:
  "bearer_token (Some ''Bearer tokB'') = Some ''tokB'' \<and> ''tokB'' \<noteq> []
   \<and> demo_verify ''tokB'' = Some ''b1''
   \<and> bearer_token (Some ''Bearer tokA'') = Some ''tokA'' \<and> ''tokA'' \<noteq> []
   \<and> demo_verify ''tokA'' = Some ''a1''
   \<and> posts demo_state ''p1'' = Some hello
   \<and> ''b1'' \<notin> set (p_likedUsers hello) \<and> ''a1'' \<in> set (p_likedUsers hello)
   \<and> (\<exists>post1 st1 post2 st2.
           put_posts_like demo_verify demo_state (Some ''Bearer tokB'') ''p1''
             = (Resp 200 (PostBody ''p1'' post1), st1)
         \<and> posts st1 ''p1'' = Some post1
         \<and> put_posts_like demo_verify st1 (Some ''Bearer tokB'') ''p1''
             = (Resp 200 (PostBody ''p1'' post2), st2)
         \<and> posts st2 ''p1'' = Some post2
         \<and> set (p_likedUsers post2) = set (p_likedUsers hello)
         \<and> ''b1'' \<in> set (p_likedUsers post1) \<and> post2 = hello)
   \<and> (\<exists>post1 st1 post2 st2.
           put_posts_like demo_verify demo_state (Some ''Bearer tokA'') ''p1''
             = (Resp 200 (PostBody ''p1'' post1), st1)
         \<and> posts st1 ''p1'' = Some post1
         \<and> put_posts_like demo_verify st1 (Some ''Bearer tokA'') ''p1''
             = (Resp 200 (PostBody ''p1'' post2), st2)
         \<and> posts st2 ''p1'' = Some post2
         \<and> set (p_likedUsers post2) = set (p_likedUsers hello)
         \<and> ''a1'' \<notin> set (p_likedUsers post1) \<and> ''a1'' \<in> set (p_likedUsers post2))"
proof -
  have h2: "''tokB'' \<noteq> []" "''tokA'' \<noteq> []" by simp_all
  have h3: "demo_verify ''tokB'' = Some ''b1''" "demo_verify ''tokA'' = Some ''a1''"
    by (simp_all add: demo_verify_def)
  have h4: "posts demo_state ''p1'' = Some hello" by (simp add: demo_state_def)
  have n: "''b1'' \<notin> set (p_likedUsers hello)" "''a1'' \<in> set (p_likedUsers hello)"
    by (simp_all add: hello_def)
  have absent: "\<exists>post1 st1 post2 st2.
           put_posts_like demo_verify demo_state (Some ''Bearer tokB'') ''p1''
             = (Resp 200 (PostBody ''p1'' post1), st1)
         \<and> posts st1 ''p1'' = Some post1
         \<and> put_posts_like demo_verify st1 (Some ''Bearer tokB'') ''p1''
             = (Resp 200 (PostBody ''p1'' post2), st2)
         \<and> posts st2 ''p1'' = Some post2
         \<and> set (p_likedUsers post2) = set (p_likedUsers hello)
         \<and> ''b1'' \<in> set (p_likedUsers post1) \<and> post2 = hello"
    using like_twice_restores_liked_set [where jwt_verify = demo_verify, OF bearer_tokB h2(1) h3(1) h4]
      n(1) by blast
  have present: "\<exists>post1 st1 post2 st2.
           put_posts_like demo_verify demo_state (Some ''Bearer tokA'') ''p1''
             = (Resp 200 (PostBody ''p1'' post1), st1)
         \<and> posts st1 ''p1'' = Some post1
         \<and> put_posts_like demo_verify st1 (Some ''Bearer tokA'') ''p1''
             = (Resp 200 (PostBody ''p1'' post2), st2)
         \<and> posts st2 ''p1'' = Some post2
         \<and> set (p_likedUsers post2) = set (p_likedUsers hello)
         \<and> ''a1'' \<notin> set (p_likedUsers post1) \<and> ''a1'' \<in> set (p_likedUsers post2)"
    using like_twice_restores_liked_set [where jwt_verify = demo_verify, OF bearer_tokA h2(2) h3(2) h4]
      n(2) by blast
  from bearer_tokB h2(1) h3(1) bearer_tokA h2(2) h3(2) h4 n absent present
  show ?thesis by (intro conjI)
qed

section \<open>Deleting a post\<close>

text \<open>
  C2. For an existing post and an authenticated requester, \<open>DELETE /posts/:id\<close> succeeds
  exactly when the requester is the post's author: then the post is removed from the store
  and one \<open>deletePost\<close> event carrying only the post's identifier is broadcast. For any
  other authenticated requester the answer is 403 and the store, the post included, is
  unchanged.
\<close>

theorem delete_post_iff_author:
  assumes "bearer_token authorization = Some token" and "token \<noteq> []"
    and "jwt_verify token = Some userId"
    and "posts st postId = Some post"
  shows "(userId = p_userId post \<longrightarrow>
            delete_posts jwt_verify st authorization postId =
              (Resp 200 (Message ''Post deleted successfully''),
               st\<lparr>posts := (posts st)(postId := None),
                  emitted := emitted st @ [DeletePost postId]\<rparr>))
       \<and> (userId \<noteq> p_userId post \<longrightarrow>
            delete_posts jwt_verify st authorization postId =
              (Resp 403 (Message ''You cannot delete this post''), st))
       \<and> (status (fst (delete_posts jwt_verify st authorization postId)) = 200
            \<longleftrightarrow> userId = p_userId post)"
  using assms by (simp add: delete_posts_def authenticate_def)

theorem delete_post_iff_author_witness:
  "bearer_token (Some ''Bearer tokA'') = Some ''tokA'' \<and> ''tokA'' \<noteq> []
   \<and> demo_verify ''tokA'' = Some ''a1'' \<and> demo_verify ''tokB'' = Some ''b1''
   \<and> posts demo_state ''p1'' = Some hello
   \<and> delete_posts demo_verify demo_state (Some ''Bearer tokA'') ''p1''
        = (Resp 200 (Message ''Post deleted successfully''),
           demo_state\<lparr>posts := (posts demo_state)(''p1'' := None),
              emitted := emitted demo_state @ [DeletePost ''p1'']\<rparr>)
   \<and> delete_posts demo_verify demo_state (Some ''Bearer tokB'') ''p1''
        = (Resp 403 (Message ''You cannot delete this post''), demo_state)"
proof -
  have h2: "''tokA'' \<noteq> []" "''tokB'' \<noteq> []" by simp_all
  have h3: "demo_verify ''tokA'' = Some ''a1''" "demo_verify ''tokB'' = Some ''b1''"
    by (simp_all add: demo_verify_def)
  have h4: "posts demo_state ''p1'' = Some hello" by (simp add: demo_state_def)
  have a: "''a1'' = p_userId hello" "''b1'' \<noteq> p_userId hello" by (simp_all add: hello_def)
  show ?thesis
    using delete_post_iff_author [where jwt_verify = demo_verify, OF bearer_tokA h2(1) h3(1) h4]
      delete_post_iff_author [where jwt_verify = demo_verify, OF bearer_tokB h2(2) h3(2) h4] a h3 h4 bearer_tokA
    by simp
qed

section \<open>RSVP\<close>

lemma rsvp_appends_cast:
  assumes "cast_objectid eventId = Casted (Some key)"
    and "findById_event key (events st) = Some event"
    and "cast_objectid text = Casted attendee"
    and "Some text \<notin> set (e_bookeduser event)"
  shows "post_rsvp cast_objectid st eventId (Some text)
           = (Resp 200 (RsvpBody (event\<lparr>e_bookeduser := e_bookeduser event @ [attendee]\<rparr>)),
              st\<lparr>events := save_event (event\<lparr>e_bookeduser := e_bookeduser event @ [attendee]\<rparr>)
                               (events st)\<rparr>)"
  using assms by (simp add: post_rsvp_def array_includes_text cast_pushed_def Let_def)

text \<open>
  Where the request's text is the text that the ObjectId prints as, the guard of
  \<open>POST /eventsdata/:id/rsvp\<close> does what its comment says ("Check if user already RSVP'd"):
  a reference among the attendees is refused with 400 and nothing changes, any other is
  appended once.
\<close>

lemma rsvp_canonical_text:
  assumes "cast_objectid eventId = Casted (Some key)"
    and "findById_event key (events st) = Some event"
    and "cast_objectid text = Casted (Some text)"
  shows "(Some text \<in> set (e_bookeduser event) \<longrightarrow>
            post_rsvp cast_objectid st eventId (Some text)
              = (Resp 400 (Flagged False ''User already RSVP'd''), st))
       \<and> (Some text \<notin> set (e_bookeduser event) \<longrightarrow>
            post_rsvp cast_objectid st eventId (Some text)
              = (Resp 200 (RsvpBody (event\<lparr>e_bookeduser := e_bookeduser event @ [Some text]\<rparr>)),
                 st\<lparr>events := save_event (event\<lparr>e_bookeduser := e_bookeduser event @ [Some text]\<rparr>)
                                  (events st)\<rparr>))"
  using assms by (simp add: post_rsvp_def array_includes_text cast_pushed_def Let_def)

text \<open>
  The guard compares the request's text, the \<open>push\<close> stores what the text casts to. A text
  that casts to an attendee without being the text that attendee prints as passes the guard,
  and the attendee is appended again.
\<close>

lemma rsvp_other_text_of_attendee:
  assumes "cast_objectid eventId = Casted (Some key)"
    and "findById_event key (events st) = Some event"
    and "cast_objectid text = Casted (Some i)"
    and "Some i \<in> set (e_bookeduser event)"
    and "Some text \<notin> set (e_bookeduser event)"
  shows "post_rsvp cast_objectid st eventId (Some text)
           = (Resp 200 (RsvpBody (event\<lparr>e_bookeduser := e_bookeduser event @ [Some i]\<rparr>)),
              st\<lparr>events := save_event (event\<lparr>e_bookeduser := e_bookeduser event @ [Some i]\<rparr>)
                               (events st)\<rparr>)
       \<and> \<not> distinct (e_bookeduser event @ [Some i])"
  using assms by (simp add: post_rsvp_def array_includes_text cast_pushed_def Let_def)

text \<open>
  C3. The guard does not make RSVP idempotent. The same RSVP request, whose \<open>userId\<close> is
  an ObjectId written in upper case, is sent twice for an event without attendees: both
  requests are answered 200 "RSVP successful", the second is not refused as already
  registered, and the attendee list then holds the same reference twice.
\<close>

theorem rsvp_upper_case_reference_added_twice:
  "post_rsvp hex_objectid concert_state ''e1e1e1e1e1e1e1e1e1e1e1e1''
       (Some ''A1A1A1A1A1A1A1A1A1A1A1A1'')
     = (Resp 200 (RsvpBody (concert\<lparr>e_bookeduser := [Some ''a1a1a1a1a1a1a1a1a1a1a1a1'']\<rparr>)),
        concert_state\<lparr>events := [concert\<lparr>e_bookeduser := [Some ''a1a1a1a1a1a1a1a1a1a1a1a1'']\<rparr>]\<rparr>)
   \<and> post_rsvp hex_objectid
       (concert_state\<lparr>events := [concert\<lparr>e_bookeduser := [Some ''a1a1a1a1a1a1a1a1a1a1a1a1'']\<rparr>]\<rparr>)
       ''e1e1e1e1e1e1e1e1e1e1e1e1'' (Some ''A1A1A1A1A1A1A1A1A1A1A1A1'')
     = (Resp 200 (RsvpBody (concert\<lparr>e_bookeduser :=
          [Some ''a1a1a1a1a1a1a1a1a1a1a1a1'', Some ''a1a1a1a1a1a1a1a1a1a1a1a1'']\<rparr>)),
        concert_state\<lparr>events := [concert\<lparr>e_bookeduser :=
          [Some ''a1a1a1a1a1a1a1a1a1a1a1a1'', Some ''a1a1a1a1a1a1a1a1a1a1a1a1'']\<rparr>]\<rparr>)"
proof -
  have f0: "findById_event ''e1e1e1e1e1e1e1e1e1e1e1e1'' (events concert_state) = Some concert"
    by (simp add: findById_event_def concert_state_def concert_def)
  have f1: "findById_event ''e1e1e1e1e1e1e1e1e1e1e1e1''
              (events (concert_state\<lparr>events :=
                 [concert\<lparr>e_bookeduser := [Some ''a1a1a1a1a1a1a1a1a1a1a1a1'']\<rparr>]\<rparr>))
            = Some (concert\<lparr>e_bookeduser := [Some ''a1a1a1a1a1a1a1a1a1a1a1a1'']\<rparr>)"
    by (simp add: findById_event_def concert_def)
  have n0: "Some ''A1A1A1A1A1A1A1A1A1A1A1A1'' \<notin> set (e_bookeduser concert)"
    by (simp add: concert_def)
  have n1: "Some ''A1A1A1A1A1A1A1A1A1A1A1A1''
              \<notin> set (e_bookeduser (concert\<lparr>e_bookeduser := [Some ''a1a1a1a1a1a1a1a1a1a1a1a1'']\<rparr>))"
    by simp
  have first: "post_rsvp hex_objectid concert_state ''e1e1e1e1e1e1e1e1e1e1e1e1''
       (Some ''A1A1A1A1A1A1A1A1A1A1A1A1'')
     = (Resp 200 (RsvpBody (concert\<lparr>e_bookeduser := [Some ''a1a1a1a1a1a1a1a1a1a1a1a1'']\<rparr>)),
        concert_state\<lparr>events := [concert\<lparr>e_bookeduser := [Some ''a1a1a1a1a1a1a1a1a1a1a1a1'']\<rparr>]\<rparr>)"
    using rsvp_appends_cast [where cast_objectid = hex_objectid,
        OF hex_objectid_concert f0 hex_objectid_upper n0]
    by (simp add: save_event_def concert_state_def concert_def)
  have second: "post_rsvp hex_objectid
       (concert_state\<lparr>events := [concert\<lparr>e_bookeduser := [Some ''a1a1a1a1a1a1a1a1a1a1a1a1'']\<rparr>]\<rparr>)
       ''e1e1e1e1e1e1e1e1e1e1e1e1'' (Some ''A1A1A1A1A1A1A1A1A1A1A1A1'')
     = (Resp 200 (RsvpBody (concert\<lparr>e_bookeduser :=
          [Some ''a1a1a1a1a1a1a1a1a1a1a1a1'', Some ''a1a1a1a1a1a1a1a1a1a1a1a1'']\<rparr>)),
        concert_state\<lparr>events := [concert\<lparr>e_bookeduser :=
          [Some ''a1a1a1a1a1a1a1a1a1a1a1a1'', Some ''a1a1a1a1a1a1a1a1a1a1a1a1'']\<rparr>]\<rparr>)"
    using rsvp_appends_cast [where cast_objectid = hex_objectid,
        OF hex_objectid_concert f1 hex_objectid_upper n1]
    by (simp add: save_event_def concert_def)
  from first second show ?thesis by (intro conjI)
qed

section \<open>Renting and returning an instrument\<close>

text \<open>
  C4, as the code has it. For an existing instrument and an authenticated requester,
  \<open>PUT /instruments/rent/:id\<close> answers 400 "You cannot rent your own instrument." when the
  requester owns the instrument; otherwise 400 "Instrument is not available for rent." when
  the status is not \<open>available\<close>; otherwise 500 "Unable to rent the instrument." when a date
  of the request is a text that is no date. On each of these failures the store is
  unchanged. Otherwise it sets the status to \<open>not available\<close>, the renter to the requester,
  and the two dates to the values the request carries, so a date that the request omits or
  leaves empty is stored as no date.
\<close>

theorem rent_sets_request_dates:
  assumes "bearer_token authorization = Some token" and "token \<noteq> []"
    and "jwt_verify token = Some renterId"
    and "instruments st instrumentId = Some instrument"
  shows "(i_userId instrument = renterId \<longrightarrow>
            put_instruments_rent jwt_verify is_date st authorization instrumentId rentedDate expectedReturnDate
              = (Resp 400 (Message ''You cannot rent your own instrument.''), st))
       \<and> (i_userId instrument \<noteq> renterId \<and> i_status instrument \<noteq> ''available'' \<longrightarrow>
            put_instruments_rent jwt_verify is_date st authorization instrumentId rentedDate expectedReturnDate
              = (Resp 400 (Message ''Instrument is not available for rent.''), st))
       \<and> (i_userId instrument \<noteq> renterId \<and> i_status instrument = ''available''
            \<and> \<not> (date_casts is_date rentedDate \<and> date_casts is_date expectedReturnDate) \<longrightarrow>
            put_instruments_rent jwt_verify is_date st authorization instrumentId rentedDate expectedReturnDate
              = (Resp 500 (ErrorBody ''Unable to rent the instrument.''), st))
       \<and> (i_userId instrument \<noteq> renterId \<and> i_status instrument = ''available''
            \<and> date_casts is_date rentedDate \<and> date_casts is_date expectedReturnDate \<longrightarrow>
            (\<exists>instrument'.
               put_instruments_rent jwt_verify is_date st authorization instrumentId rentedDate expectedReturnDate
                 = (Resp 200 (InstrumentBody ''Instrument rented successfully!'' instrumentId instrument'),
                    st\<lparr>instruments := (instruments st)(instrumentId \<mapsto> instrument')\<rparr>)
             \<and> i_status instrument' = ''not available''
             \<and> i_renterId instrument' = Some renterId
             \<and> i_rentedDate instrument' = cast_date rentedDate
             \<and> i_expectedReturnDate instrument' = cast_date expectedReturnDate
             \<and> instrument' = instrument\<lparr>i_status := i_status instrument',
                  i_rentedDate := i_rentedDate instrument',
                  i_expectedReturnDate := i_expectedReturnDate instrument',
                  i_renterId := i_renterId instrument'\<rparr>))"
proof -
  have a: "authenticate jwt_verify authorization = Authenticated renterId"
    using assms(1-3) by (simp add: authenticate_def)
  show ?thesis
    by (simp add: put_instruments_rent_def a assms(4) Let_def)
qed

theorem rent_sets_request_dates_witness:
  "bearer_token (Some ''Bearer tokA'') = Some ''tokA'' \<and> ''tokA'' \<noteq> []
   \<and> demo_verify ''tokA'' = Some ''a1'' \<and> demo_verify ''tokB'' = Some ''b1''
   \<and> instruments demo_state ''i1'' = Some guitar
   \<and> instruments rented_state ''i1'' = Some rented_guitar
   \<and> date_casts demo_is_date (Some ''2025-02-01'') \<and> date_casts demo_is_date (Some ''2025-02-08'')
   \<and> \<not> date_casts demo_is_date (Some ''soon'')
   \<and> put_instruments_rent demo_verify demo_is_date demo_state (Some ''Bearer tokA'') ''i1''
         (Some ''2025-02-01'') (Some ''2025-02-08'')
        = (Resp 400 (Message ''You cannot rent your own instrument.''), demo_state)
   \<and> put_instruments_rent demo_verify demo_is_date rented_state (Some ''Bearer tokB'') ''i1''
         (Some ''2025-02-01'') (Some ''2025-02-08'')
        = (Resp 400 (Message ''Instrument is not available for rent.''), rented_state)
   \<and> put_instruments_rent demo_verify demo_is_date demo_state (Some ''Bearer tokB'') ''i1''
         (Some ''soon'') (Some ''2025-02-08'')
        = (Resp 500 (ErrorBody ''Unable to rent the instrument.''), demo_state)
   \<and> (\<exists>instrument'.
         put_instruments_rent demo_verify demo_is_date demo_state (Some ''Bearer tokB'') ''i1''
             (Some ''2025-02-01'') (Some ''2025-02-08'')
           = (Resp 200 (InstrumentBody ''Instrument rented successfully!'' ''i1'' instrument'),
              demo_state\<lparr>instruments := (instruments demo_state)(''i1'' \<mapsto> instrument')\<rparr>)
         \<and> i_status instrument' = ''not available''
         \<and> i_renterId instrument' = Some ''b1''
         \<and> i_rentedDate instrument' = Some ''2025-02-01''
         \<and> i_expectedReturnDate instrument' = Some ''2025-02-08'')"
proof -
  have h2: "''tokA'' \<noteq> []" "''tokB'' \<noteq> []" by simp_all
  have h3: "demo_verify ''tokA'' = Some ''a1''" "demo_verify ''tokB'' = Some ''b1''"
    by (simp_all add: demo_verify_def)
  have h4: "instruments demo_state ''i1'' = Some guitar" by (simp add: demo_state_def)
  have h5: "instruments rented_state ''i1'' = Some rented_guitar" by (simp add: rented_state_def)
  have a: "i_userId guitar = ''a1''" "i_userId guitar \<noteq> ''b1''" "i_status guitar = ''available''"
    "i_userId rented_guitar \<noteq> ''b1''" "i_status rented_guitar \<noteq> ''available''"
    by (simp_all add: guitar_def rented_guitar_def)
  have d: "date_casts demo_is_date (Some ''2025-02-01'')"
    "date_casts demo_is_date (Some ''2025-02-08'')"
    "\<not> date_casts demo_is_date (Some ''soon'')"
    by (simp_all add: date_casts_def demo_is_date_def)
  have c: "cast_date (Some ''2025-02-01'') = Some ''2025-02-01''"
    "cast_date (Some ''2025-02-08'') = Some ''2025-02-08''"
    by (simp_all add: cast_date_def)
  note t = rent_sets_request_dates [where jwt_verify = demo_verify and is_date = demo_is_date
      and rentedDate = "Some ''2025-02-01''" and expectedReturnDate = "Some ''2025-02-08''"]
  note u = rent_sets_request_dates [where jwt_verify = demo_verify and is_date = demo_is_date
      and rentedDate = "Some ''soon''" and expectedReturnDate = "Some ''2025-02-08''"]
  have own: "put_instruments_rent demo_verify demo_is_date demo_state (Some ''Bearer tokA'') ''i1''
         (Some ''2025-02-01'') (Some ''2025-02-08'')
        = (Resp 400 (Message ''You cannot rent your own instrument.''), demo_state)"
    using t [OF bearer_tokA h2(1) h3(1) h4, THEN conjunct1] a(1) by simp
  have na: "put_instruments_rent demo_verify demo_is_date rented_state (Some ''Bearer tokB'') ''i1''
         (Some ''2025-02-01'') (Some ''2025-02-08'')
        = (Resp 400 (Message ''Instrument is not available for rent.''), rented_state)"
    using t [OF bearer_tokB h2(2) h3(2) h5, THEN conjunct2, THEN conjunct1] a(4,5) by simp
  have bad: "put_instruments_rent demo_verify demo_is_date demo_state (Some ''Bearer tokB'') ''i1''
         (Some ''soon'') (Some ''2025-02-08'')
        = (Resp 500 (ErrorBody ''Unable to rent the instrument.''), demo_state)"
    using u [OF bearer_tokB h2(2) h3(2) h4, THEN conjunct2, THEN conjunct2, THEN conjunct1]
      a(2,3) d(3) by simp
  have ok: "\<exists>instrument'.
         put_instruments_rent demo_verify demo_is_date demo_state (Some ''Bearer tokB'') ''i1''
             (Some ''2025-02-01'') (Some ''2025-02-08'')
           = (Resp 200 (InstrumentBody ''Instrument rented successfully!'' ''i1'' instrument'),
              demo_state\<lparr>instruments := (instruments demo_state)(''i1'' \<mapsto> instrument')\<rparr>)
         \<and> i_status instrument' = ''not available''
         \<and> i_renterId instrument' = Some ''b1''
         \<and> i_rentedDate instrument' = Some ''2025-02-01''
         \<and> i_expectedReturnDate instrument' = Some ''2025-02-08''"
    using t [OF bearer_tokB h2(2) h3(2) h4, THEN conjunct2, THEN conjunct2, THEN conjunct2]
      a(2,3) d(1,2) unfolding c by blast
  from bearer_tokA h2(1) h3 h4 h5 d own na bad ok show ?thesis by (intro conjI)
qed

text \<open>
  A rent request without dates succeeds and leaves both date fields unset, so a successful
  rent does not always fill all three rental fields.
\<close>

theorem rent_without_dates_counterexample:
  "put_instruments_rent demo_verify demo_is_date demo_state (Some ''Bearer tokB'') ''i1'' None None
     = (Resp 200 (InstrumentBody ''Instrument rented successfully!'' ''i1''
          (guitar\<lparr>i_status := ''not available'', i_renterId := Some ''b1''\<rparr>)),
        demo_state\<lparr>instruments := (instruments demo_state)
          (''i1'' \<mapsto> guitar\<lparr>i_status := ''not available'', i_renterId := Some ''b1''\<rparr>)\<rparr>)
   \<and> i_rentedDate (guitar\<lparr>i_status := ''not available'', i_renterId := Some ''b1''\<rparr>) = None
   \<and> i_expectedReturnDate (guitar\<lparr>i_status := ''not available'', i_renterId := Some ''b1''\<rparr>) = None"
  by (simp add: put_instruments_rent_def authenticate_def bearer_tokB demo_verify_def
      demo_state_def guitar_def cast_date_def date_casts_def Let_def)

text \<open>
  C5. For an existing instrument and an authenticated requester,
  \<open>PUT /instruments/return/:id\<close> answers 400 "You are not the renter of this instrument."
  and leaves the store unchanged when the requester is not the current renter; when the
  requester is the current renter it succeeds, resets the status to \<open>available\<close>, clears
  both dates and empties the renter reference.
\<close>

theorem return_requires_renter:
  assumes "bearer_token authorization = Some token" and "token \<noteq> []"
    and "jwt_verify token = Some userId"
    and "instruments st instrumentId = Some instrument"
  shows "(i_renterId instrument \<noteq> Some userId \<longrightarrow>
            put_instruments_return jwt_verify st authorization instrumentId =
              (Resp 400 (Message ''You are not the renter of this instrument.''), st))
       \<and> (i_renterId instrument = Some userId \<longrightarrow>
            put_instruments_return jwt_verify st authorization instrumentId =
              (Resp 200 (InstrumentBody ''Instrument returned and status updated to available!''
                  instrumentId
                  (instrument\<lparr>i_status := ''available'', i_rentedDate := None,
                     i_expectedReturnDate := None, i_renterId := Some []\<rparr>)),
               st\<lparr>instruments := (instruments st)(instrumentId \<mapsto>
                  instrument\<lparr>i_status := ''available'', i_rentedDate := None,
                     i_expectedReturnDate := None, i_renterId := Some []\<rparr>)\<rparr>))"
  using assms by (simp add: put_instruments_return_def authenticate_def cast_date_def Let_def)

theorem return_requires_renter_witness:
  "bearer_token (Some ''Bearer tokA'') = Some ''tokA'' \<and> ''tokA'' \<noteq> []
   \<and> demo_verify ''tokA'' = Some ''a1'' \<and> demo_verify ''tokB'' = Some ''b1''
   \<and> instruments rented_state ''i1'' = Some rented_guitar
   \<and> put_instruments_return demo_verify rented_state (Some ''Bearer tokA'') ''i1''
        = (Resp 400 (Message ''You are not the renter of this instrument.''), rented_state)
   \<and> put_instruments_return demo_verify rented_state (Some ''Bearer tokB'') ''i1''
        = (Resp 200 (InstrumentBody ''Instrument returned and status updated to available!''
             ''i1'' (guitar\<lparr>i_renterId := Some []\<rparr>)),
           rented_state\<lparr>instruments := [''i1'' \<mapsto> guitar\<lparr>i_renterId := Some []\<rparr>]\<rparr>)"
proof -
  have h2: "''tokA'' \<noteq> []" "''tokB'' \<noteq> []" by simp_all
  have h3: "demo_verify ''tokA'' = Some ''a1''" "demo_verify ''tokB'' = Some ''b1''"
    by (simp_all add: demo_verify_def)
  have h4: "instruments rented_state ''i1'' = Some rented_guitar" by (simp add: rented_state_def)
  have a: "i_renterId rented_guitar \<noteq> Some ''a1''" "i_renterId rented_guitar = Some ''b1''"
    by (simp_all add: rented_guitar_def)
  have g: "rented_guitar\<lparr>i_status := ''available'', i_rentedDate := None,
             i_expectedReturnDate := None, i_renterId := Some []\<rparr> = guitar\<lparr>i_renterId := Some []\<rparr>"
    by (simp add: rented_guitar_def guitar_def)
  have m: "(instruments rented_state)(''i1'' \<mapsto> guitar\<lparr>i_renterId := Some []\<rparr>)
             = [''i1'' \<mapsto> guitar\<lparr>i_renterId := Some []\<rparr>]"
    by (simp add: rented_state_def)
  show ?thesis
    using return_requires_renter [where jwt_verify = demo_verify, OF bearer_tokA h2(1) h3(1) h4]
      return_requires_renter [where jwt_verify = demo_verify, OF bearer_tokB h2(2) h3(2) h4]
      a h3 h4 bearer_tokA
    by (simp add: g m)
qed

section \<open>The token guard\<close>

text \<open>
  C6, as the code has it. For the six guarded handlers (get and update profile, like, delete
  post, rent, return): when the bearer token is missing (no header, no second word, or an
  empty one) the answer is 401 "Unauthorized"; when a token is present but the verifier
  rejects it (malformed, expired, wrong signature) the answer is 500, from the handler's
  \<open>catch\<close>. In both cases nothing in the store changes and nothing is broadcast.
\<close>

theorem token_guard_outcomes:
  "((bearer_token authorization = None \<or> bearer_token authorization = Some []) \<longrightarrow>
        get_user jwt_verify st authorization = (unauthorized, st)
      \<and> put_user jwt_verify bcrypt_hash st authorization b = (unauthorized, st)
      \<and> put_posts_like jwt_verify st authorization postId = (unauthorized, st)
      \<and> delete_posts jwt_verify st authorization postId = (unauthorized, st)
      \<and> put_instruments_rent jwt_verify is_date st authorization instrumentId rentedDate expectedReturnDate
          = (unauthorized, st)
      \<and> put_instruments_return jwt_verify st authorization instrumentId = (unauthorized, st))
   \<and> (\<forall>token. bearer_token authorization = Some token \<and> token \<noteq> [] \<and> jwt_verify token = None \<longrightarrow>
        get_user jwt_verify st authorization = (server_error, st)
      \<and> put_user jwt_verify bcrypt_hash st authorization b = (server_error, st)
      \<and> put_posts_like jwt_verify st authorization postId = (server_error, st)
      \<and> delete_posts jwt_verify st authorization postId = (server_error, st)
      \<and> put_instruments_rent jwt_verify is_date st authorization instrumentId rentedDate expectedReturnDate
          = (Resp 500 (ErrorBody ''Unable to rent the instrument.''), st)
      \<and> put_instruments_return jwt_verify st authorization instrumentId
          = (Resp 500 (ErrorBody ''Unable to return the instrument.''), st))"
proof (intro conjI impI allI)
  assume m: "bearer_token authorization = None \<or> bearer_token authorization = Some []"
  have a: "authenticate jwt_verify authorization = NoToken"
    using m by (rule authenticate_missing)
  show "get_user jwt_verify st authorization = (unauthorized, st)"
    by (simp add: get_user_def a)
  show "put_user jwt_verify bcrypt_hash st authorization b = (unauthorized, st)"
    by (simp add: put_user_def a)
  show "put_posts_like jwt_verify st authorization postId = (unauthorized, st)"
    by (simp add: put_posts_like_def a)
  show "delete_posts jwt_verify st authorization postId = (unauthorized, st)"
    by (simp add: delete_posts_def a)
  show "put_instruments_rent jwt_verify is_date st authorization instrumentId rentedDate expectedReturnDate
          = (unauthorized, st)"
    by (simp add: put_instruments_rent_def a)
  show "put_instruments_return jwt_verify st authorization instrumentId = (unauthorized, st)"
    by (simp add: put_instruments_return_def a)
next
  fix token
  assume r: "bearer_token authorization = Some token \<and> token \<noteq> [] \<and> jwt_verify token = None"
  have a: "authenticate jwt_verify authorization = BadToken"
    using r by (simp add: authenticate_def)
  show "get_user jwt_verify st authorization = (server_error, st)"
    by (simp add: get_user_def a)
  show "put_user jwt_verify bcrypt_hash st authorization b = (server_error, st)"
    by (simp add: put_user_def a)
  show "put_posts_like jwt_verify st authorization postId = (server_error, st)"
    by (simp add: put_posts_like_def a)
  show "delete_posts jwt_verify st authorization postId = (server_error, st)"
    by (simp add: delete_posts_def a)
  show "put_instruments_rent jwt_verify is_date st authorization instrumentId rentedDate expectedReturnDate
          = (Resp 500 (ErrorBody ''Unable to rent the instrument.''), st)"
    by (simp add: put_instruments_rent_def a)
  show "put_instruments_return jwt_verify st authorization instrumentId
          = (Resp 500 (ErrorBody ''Unable to return the instrument.''), st)"
    by (simp add: put_instruments_return_def a)
qed

theorem token_guard_outcomes_witness:
  "bearer_token (Some ''Bearer '') = Some []
   \<and> bearer_token (Some ''Bearer forged'') = Some ''forged'' \<and> ''forged'' \<noteq> []
   \<and> demo_verify ''forged'' = None
   \<and> put_posts_like demo_verify demo_state (Some ''Bearer '') ''p1'' = (unauthorized, demo_state)
   \<and> put_instruments_rent demo_verify demo_is_date demo_state (Some ''Bearer '') ''i1'' None None
        = (unauthorized, demo_state)
   \<and> put_posts_like demo_verify demo_state (Some ''Bearer forged'') ''p1''
        = (server_error, demo_state)
   \<and> put_instruments_rent demo_verify demo_is_date demo_state (Some ''Bearer forged'') ''i1'' None None
        = (Resp 500 (ErrorBody ''Unable to rent the instrument.''), demo_state)"
proof -
  have v: "demo_verify ''forged'' = None" by (simp add: demo_verify_def)
  have n: "''forged'' \<noteq> []" by simp
  show ?thesis
    using token_guard_outcomes [where jwt_verify = demo_verify and st = demo_state
        and authorization = "Some ''Bearer ''" and postId = "''p1''" and instrumentId = "''i1''"
        and rentedDate = None and expectedReturnDate = None and is_date = demo_is_date]
      token_guard_outcomes [where jwt_verify = demo_verify and st = demo_state
        and authorization = "Some ''Bearer forged''" and postId = "''p1''" and instrumentId = "''i1''"
        and rentedDate = None and expectedReturnDate = None and is_date = demo_is_date]
      bearer_absent(3) bearer_forged v n
    by simp
qed

text \<open>A rejected token is answered with 500 "Server error", which is not the 401 answer.\<close>

theorem invalid_token_is_500_counterexample:
  "put_posts_like demo_verify demo_state (Some ''Bearer forged'') ''p1''
     = (Resp 500 (Message ''Server error''), demo_state)
   \<and> get_user demo_verify demo_state (Some ''Bearer forged'')
     = (Resp 500 (Message ''Server error''), demo_state)
   \<and> Resp 500 (Message ''Server error'') \<noteq> unauthorized"
  by (simp add: put_posts_like_def get_user_def authenticate_def bearer_forged demo_verify_def
      server_error_def unauthorized_def)

section \<open>Login\<close>

text \<open>
  C7, as the code has it. \<open>POST /login\<close> answers 400 "Invalid credentials" when no user has
  the email and when the password does not match the stored hash; it answers 500
  "Server error" when the email is known and the request carries no password; when the
  password matches, the answer carries the token signed over that user's identifier.
  Provided \<open>bcrypt.compare\<close> accepts a password against its own hash, a login with the email
  and password of a registration that was answered 201 succeeds with a token for the new
  user's identifier.
\<close>

theorem login_outcomes:
  "(findOne_email email (users st) = None \<longrightarrow>
       post_login bcrypt_compare jwt_sign st email password = Resp 400 (Message ''Invalid credentials''))
   \<and> (\<forall>user pw. findOne_email email (users st) = Some user \<and> password = Some pw
          \<and> \<not> bcrypt_compare pw (u_password user) \<longrightarrow>
       post_login bcrypt_compare jwt_sign st email password = Resp 400 (Message ''Invalid credentials''))
   \<and> (\<forall>user. findOne_email email (users st) = Some user \<and> password = None \<longrightarrow>
       post_login bcrypt_compare jwt_sign st email password = Resp 500 (Message ''Server error''))
   \<and> (\<forall>user pw. findOne_email email (users st) = Some user \<and> password = Some pw
          \<and> bcrypt_compare pw (u_password user) \<longrightarrow>
       post_login bcrypt_compare jwt_sign st email password
         = Resp 200 (TokenBody (jwt_sign (u_userId user))))
   \<and> (\<forall>bcrypt_hash newId st0 b m.
          (\<forall>p. bcrypt_compare p (bcrypt_hash p))
          \<and> post_register bcrypt_hash newId st0 b = (Resp 201 m, st) \<longrightarrow>
       post_login bcrypt_compare jwt_sign st (r_email b) (r_password b)
         = Resp 200 (TokenBody (jwt_sign newId)))"
proof (intro conjI allI impI)
  show "post_login bcrypt_compare jwt_sign st email password = Resp 400 (Message ''Invalid credentials'')"
    if "findOne_email email (users st) = None"
    using that by (simp add: post_login_def)
  show "post_login bcrypt_compare jwt_sign st email password = Resp 400 (Message ''Invalid credentials'')"
    if "findOne_email email (users st) = Some user \<and> password = Some pw
          \<and> \<not> bcrypt_compare pw (u_password user)" for user pw
    using that by (simp add: post_login_def)
  show "post_login bcrypt_compare jwt_sign st email password = Resp 500 (Message ''Server error'')"
    if "findOne_email email (users st) = Some user \<and> password = None" for user
    using that by (simp add: post_login_def server_error_def)
  show "post_login bcrypt_compare jwt_sign st email password
         = Resp 200 (TokenBody (jwt_sign (u_userId user)))"
    if "findOne_email email (users st) = Some user \<and> password = Some pw
          \<and> bcrypt_compare pw (u_password user)" for user pw
    using that by (simp add: post_login_def)
  show "post_login bcrypt_compare jwt_sign st (r_email b) (r_password b)
         = Resp 200 (TokenBody (jwt_sign newId))"
    if "(\<forall>p. bcrypt_compare p (bcrypt_hash p))
          \<and> post_register bcrypt_hash newId st0 b = (Resp 201 m, st)" for bcrypt_hash newId st0 b m
    using that register_then_login by blast
qed

theorem login_outcomes_witness:
  "findOne_email (Some ''z@x.com'') (users demo_state) = None
   \<and> findOne_email (Some ''a@x.com'') (users demo_state) = Some alice
   \<and> \<not> demo_compare ''wrong'' (u_password alice) \<and> demo_compare ''pw'' (u_password alice)
   \<and> (\<forall>p. demo_compare p (demo_hash p))
   \<and> post_register demo_hash ''b1'' demo_state signup
        = (Resp 201 (Message ''User registered successfully''), demo_state\<lparr>users := [alice, bob]\<rparr>)
   \<and> post_login demo_compare demo_sign demo_state (Some ''z@x.com'') (Some ''pw'')
        = Resp 400 (Message ''Invalid credentials'')
   \<and> post_login demo_compare demo_sign demo_state (Some ''a@x.com'') (Some ''wrong'')
        = Resp 400 (Message ''Invalid credentials'')
   \<and> post_login demo_compare demo_sign demo_state (Some ''a@x.com'') None
        = Resp 500 (Message ''Server error'')
   \<and> post_login demo_compare demo_sign demo_state (Some ''a@x.com'') (Some ''pw'')
        = Resp 200 (TokenBody ''jwt:a1'')
   \<and> post_login demo_compare demo_sign (demo_state\<lparr>users := [alice, bob]\<rparr>)
        (Some ''b@x.com'') (Some ''secret'') = Resp 200 (TokenBody ''jwt:b1'')"
proof -
  have u: "findOne_email (Some ''z@x.com'') (users demo_state) = None"
    by (simp add: findOne_email_def demo_state_def alice_def)
  have k: "findOne_email (Some ''a@x.com'') (users demo_state) = Some alice"
    by (simp add: findOne_email_def demo_state_def alice_def)
  have w: "\<not> demo_compare ''wrong'' (u_password alice)" "demo_compare ''pw'' (u_password alice)"
    by (simp_all add: demo_compare_def alice_def)
  have o: "\<forall>p. demo_compare p (demo_hash p)"
    by (simp add: demo_compare_def demo_hash_def)
  have s: "r_email signup = Some ''b@x.com''" "r_password signup = Some ''secret''"
    by (simp_all add: signup_def)
  have i: "u_userId alice = ''a1''" "demo_sign ''a1'' = ''jwt:a1''" "demo_sign ''b1'' = ''jwt:b1''"
    by (simp_all add: alice_def demo_sign_def)
  note t = login_outcomes [where bcrypt_compare = demo_compare and jwt_sign = demo_sign]
  have 1: "post_login demo_compare demo_sign demo_state (Some ''z@x.com'') (Some ''pw'')
        = Resp 400 (Message ''Invalid credentials'')"
    using t [THEN conjunct1, rule_format, OF u] .
  have 2: "post_login demo_compare demo_sign demo_state (Some ''a@x.com'') (Some ''wrong'')
        = Resp 400 (Message ''Invalid credentials'')"
    using t [where email = "Some ''a@x.com''" and st = demo_state and password = "Some ''wrong''",
        THEN conjunct2, THEN conjunct1, rule_format, of alice "''wrong''"] k w(1) by simp
  have 3: "post_login demo_compare demo_sign demo_state (Some ''a@x.com'') None
        = Resp 500 (Message ''Server error'')"
    using t [where email = "Some ''a@x.com''" and st = demo_state and password = None,
        THEN conjunct2, THEN conjunct2, THEN conjunct1, rule_format, of alice] k by simp
  have 4: "post_login demo_compare demo_sign demo_state (Some ''a@x.com'') (Some ''pw'')
        = Resp 200 (TokenBody ''jwt:a1'')"
    using t [where email = "Some ''a@x.com''" and st = demo_state and password = "Some ''pw''",
        THEN conjunct2, THEN conjunct2, THEN conjunct2, THEN conjunct1, rule_format,
        of alice "''pw''"] k w(2) i(1,2) by simp
  have "post_login demo_compare demo_sign (demo_state\<lparr>users := [alice, bob]\<rparr>)
        (r_email signup) (r_password signup) = Resp 200 (TokenBody (demo_sign ''b1''))"
    using t [where st = "demo_state\<lparr>users := [alice, bob]\<rparr>",
        THEN conjunct2, THEN conjunct2, THEN conjunct2, THEN conjunct2, rule_format,
        of demo_hash "''b1''" demo_state signup]
      o register_signup by simp
  then have 5: "post_login demo_compare demo_sign (demo_state\<lparr>users := [alice, bob]\<rparr>)
        (Some ''b@x.com'') (Some ''secret'') = Resp 200 (TokenBody ''jwt:b1'')"
    by (simp add: s i(3))
  from u k w o register_signup 1 2 3 4 5 show ?thesis by (intro conjI)
qed

text \<open>
  Both login failures are answered with status 400, not with the 401 "Unauthorized" that
  the token guard uses.
\<close>

theorem login_failure_is_400_counterexample:
  "post_login demo_compare demo_sign demo_state (Some ''a@x.com'') (Some ''wrong'')
     = Resp 400 (Message ''Invalid credentials'')
   \<and> post_login demo_compare demo_sign demo_state (Some ''z@x.com'') (Some ''pw'')
     = Resp 400 (Message ''Invalid credentials'')
   \<and> Resp 400 (Message ''Invalid credentials'') \<noteq> unauthorized
   \<and> status (Resp 400 (Message ''Invalid credentials'')) \<noteq> 401"
  by (simp add: post_login_def findOne_email_def demo_state_def alice_def demo_compare_def
      unauthorized_def)

section \<open>Creating an instrument listing\<close>

text \<open>
  C8, as the code has it. A listing that \<open>POST /addnewinstrument\<close> persists has status
  \<open>available\<close> when the request carries no \<open>status\<close>; when the request carries one,
  the listing is persisted with the request's status.
\<close>

theorem new_instrument_status:
  assumes "post_addnewinstrument is_date newId st b file = (Resp 201 m, st')"
  shows "\<exists>newInstrument. instruments st' newId = Some newInstrument
           \<and> (a_status b = None \<longrightarrow> i_status newInstrument = ''available'')
           \<and> (\<forall>s. a_status b = Some s \<longrightarrow> i_status newInstrument = s)"
  using assms by (auto simp: post_addnewinstrument_def Let_def split: if_splits)

theorem new_instrument_status_witness:
  "post_addnewinstrument demo_is_date ''i2'' demo_state listing None
     = (Resp 201 (Message ''Instrument added successfully!''),
        demo_state\<lparr>instruments := (instruments demo_state)(''i2'' \<mapsto> drum)\<rparr>)
   \<and> a_status listing = None
   \<and> (\<exists>newInstrument.
         instruments (demo_state\<lparr>instruments := (instruments demo_state)(''i2'' \<mapsto> drum)\<rparr>) ''i2''
           = Some newInstrument
         \<and> i_status newInstrument = ''available'')
   \<and> post_addnewinstrument demo_is_date ''i2'' demo_state (listing\<lparr>a_status := Some ''on loan''\<rparr>) None
     = (Resp 201 (Message ''Instrument added successfully!''),
        demo_state\<lparr>instruments := (instruments demo_state)(''i2'' \<mapsto> drum\<lparr>i_status := ''on loan''\<rparr>)\<rparr>)
   \<and> a_status (listing\<lparr>a_status := Some ''on loan''\<rparr>) = Some ''on loan''
   \<and> (\<exists>newInstrument.
         instruments (demo_state\<lparr>instruments :=
             (instruments demo_state)(''i2'' \<mapsto> drum\<lparr>i_status := ''on loan''\<rparr>)\<rparr>) ''i2''
           = Some newInstrument
         \<and> i_status newInstrument = ''on loan'')"
proof -
  have n: "a_status listing = None" by (simp add: listing_def)
  have l: "a_status (listing\<lparr>a_status := Some ''on loan''\<rparr>) = Some ''on loan''" by simp
  have 1: "\<exists>newInstrument.
         instruments (demo_state\<lparr>instruments := (instruments demo_state)(''i2'' \<mapsto> drum)\<rparr>) ''i2''
           = Some newInstrument
         \<and> i_status newInstrument = ''available''"
    using new_instrument_status [OF add_listing] n by blast
  have 2: "\<exists>newInstrument.
         instruments (demo_state\<lparr>instruments :=
             (instruments demo_state)(''i2'' \<mapsto> drum\<lparr>i_status := ''on loan''\<rparr>)\<rparr>) ''i2''
           = Some newInstrument
         \<and> i_status newInstrument = ''on loan''"
    using new_instrument_status [OF add_listing_on_loan] l by blast
  from add_listing n 1 add_listing_on_loan l 2 show ?thesis by (intro conjI)
qed

text \<open>A request with \<open>status: "not available"\<close> is persisted with that status.\<close>

theorem new_instrument_status_counterexample:
  "post_addnewinstrument demo_is_date ''i2'' demo_state (listing\<lparr>a_status := Some ''not available''\<rparr>) None
     = (Resp 201 (Message ''Instrument added successfully!''),
        demo_state\<lparr>instruments :=
          (instruments demo_state)(''i2'' \<mapsto> drum\<lparr>i_status := ''not available''\<rparr>)\<rparr>)
   \<and> i_status (drum\<lparr>i_status := ''not available''\<rparr>) \<noteq> ''available''"
  by (simp add: post_addnewinstrument_def listing_def drum_def required_def value_or_empty_def
      cast_date_def date_casts_def)

section \<open>The description of a user\<close>

text \<open>
  Registration writes a non-empty description only for the role \<open>Artist\<close>, so it keeps
  \<open>description_only_artist\<close> for every stored user.
\<close>

lemma register_keeps_description_only_artist:
  assumes "post_register bcrypt_hash newId st b = (r, st')"
    and "\<forall>u \<in> set (users st). description_only_artist u"
  shows "\<forall>u \<in> set (users st'). description_only_artist u"
  using assms
  by (auto simp: post_register_def Let_def description_only_artist_def required_def
      value_or_empty_def split: option.splits if_splits)

text \<open>
  C9. The profile update does not keep it: \<open>PUT /user\<close> copies \<open>description\<close> from the
  request without looking at the role. Here Alice, whose role is \<open>User\<close> and whose
  description is empty, sends \<open>{ description: "I paint" }\<close> and is stored with that
  description.
\<close>

theorem profile_update_sets_description_of_non_artist:
  "put_user demo_verify demo_hash demo_state (Some ''Bearer tokA'') bio
     = (Resp 200 (ProfileUpdated (select_no_password (alice\<lparr>u_description := ''I paint''\<rparr>))),
        demo_state\<lparr>users := [alice\<lparr>u_description := ''I paint''\<rparr>]\<rparr>)
   \<and> u_role (alice\<lparr>u_description := ''I paint''\<rparr>) = ''User''
   \<and> u_description (alice\<lparr>u_description := ''I paint''\<rparr>) = ''I paint''
   \<and> u_description alice = []"
  by (simp add: put_user_def authenticate_def bearer_tokA demo_verify_def demo_state_def
      apply_update_def set_field_def bio_def alice_def Let_def)

section \<open>Empty collections are reported as failures\<close>

text \<open>
  C10. When the collection is empty, \<open>GET /eventsdata\<close> and \<open>GET /usernames\<close> answer 404
  with a failure message instead of an empty list; hence a response with status 200 carries
  a list with at least one element.
\<close>

theorem list_handlers_empty_is_404:
  "(events st = [] \<longrightarrow> get_eventsdata st = Resp 404 (Flagged False ''No events found''))
   \<and> (users st = [] \<longrightarrow> get_usernames st = Resp 404 (Message ''No users found''))
   \<and> (status (get_eventsdata st) = 200 \<longrightarrow>
        (\<exists>es. payload (get_eventsdata st) = EventsBody es \<and> es \<noteq> []))
   \<and> (status (get_usernames st) = 200 \<longrightarrow>
        (\<exists>ns. payload (get_usernames st) = Usernames ns \<and> ns \<noteq> []))"
  by (simp add: get_eventsdata_def get_usernames_def)

theorem list_handlers_empty_is_404_witness:
  "events empty_state = [] \<and> users empty_state = []
   \<and> get_eventsdata empty_state = Resp 404 (Flagged False ''No events found'')
   \<and> get_usernames empty_state = Resp 404 (Message ''No users found'')
   \<and> status (get_eventsdata (empty_state\<lparr>events := [gig], users := [alice]\<rparr>)) = 200
   \<and> status (get_usernames (empty_state\<lparr>events := [gig], users := [alice]\<rparr>)) = 200
   \<and> (\<exists>es. payload (get_eventsdata (empty_state\<lparr>events := [gig], users := [alice]\<rparr>)) = EventsBody es
         \<and> es \<noteq> [])
   \<and> (\<exists>ns. payload (get_usernames (empty_state\<lparr>events := [gig], users := [alice]\<rparr>)) = Usernames ns
         \<and> ns \<noteq> [])"
  using list_handlers_empty_is_404 [of empty_state]
    list_handlers_empty_is_404 [of "empty_state\<lparr>events := [gig], users := [alice]\<rparr>"]
  by (simp add: empty_state_def get_eventsdata_def get_usernames_def)

end
